theory Spec2Isabelle
  imports Complex_Main "HOL-Library.Multiset"
begin

section \<open>DriveGuard: the sleep database\<close>

text \<open>
  A shallow embedding of \<^verbatim>\<open>src/sleep_database.py\<close>. The class \<^verbatim>\<open>SleepDatabase\<close> keeps
  one table, \<^verbatim>\<open>driver\<close>, with one column, \<^verbatim>\<open>driver_asleep TIMESTAMP PRIMARY KEY\<close>,
  and has three operations on it: \<^verbatim>\<open>take_sleep_timestamp\<close> inserts the current time,
  \<^verbatim>\<open>most_common_sleep_hour\<close> shows the most frequent hour, \<^verbatim>\<open>plot_sleep_trend\<close>
  shows the counts per hour with a trend line.
\<close>

subsection \<open>Timestamps and the store\<close>

text \<open>
  A \<^verbatim>\<open>datetime\<close> value, field by field. Python's \<^verbatim>\<open>datetime\<close> and PostgreSQL's
  \<^verbatim>\<open>TIMESTAMP\<close> both have microsecond resolution, and both keep the hour within
  \<open>0..23\<close>; the record does not, so a theorem that needs the bound states it.
\<close>

record timestamp =
  year :: nat
  month :: nat
  day :: nat
  hour :: nat
  minute :: nat
  second :: nat
  microsecond :: nat

text \<open>
  What the operations see: the system clock, which \<^verbatim>\<open>datetime.now()\<close> reads, the
  committed rows of the table \<^verbatim>\<open>driver\<close>, and the state of the transaction of
  \<^verbatim>\<open>self.connection\<close>. The connection does not commit by itself and the class never
  rolls back: once a statement has raised, the transaction stays failed, and every
  later statement on this connection raises.
\<close>

record world =
  clock :: timestamp
  driver :: "timestamp list"
  failed_transaction :: bool

datatype db_error = UniqueViolation | InFailedSqlTransaction

text \<open>
  \<^verbatim>\<open>INSERT INTO driver (driver_asleep) VALUES (%s)\<close> on a table whose only column is
  the primary key: a value that is already stored violates the key and the statement
  raises; otherwise the row is added.
\<close>

definition insert_driver :: "timestamp \<Rightarrow> timestamp list \<Rightarrow> db_error + timestamp list" where
  "insert_driver timestamp tbl =
     (if timestamp \<in> set tbl then Inl UniqueViolation else Inr (tbl @ [timestamp]))"

text \<open>
  \<^verbatim>\<open>take_sleep_timestamp(self)\<close>: the timestamp is the clock's reading; the method has
  no other argument. The result is the exception raised, if any, and the world after
  the call. In a failed transaction \<^verbatim>\<open>cursor.execute\<close> raises and nothing is stored.
  When the insert violates the key, \<^verbatim>\<open>commit\<close> is not reached: the table is as it
  was and the transaction is left failed.
\<close>

definition take_sleep_timestamp :: "world \<Rightarrow> db_error option \<times> world" where
  "take_sleep_timestamp w =
     (let timestamp = clock w in
      if failed_transaction w then (Some InFailedSqlTransaction, w)
      else
        case insert_driver timestamp (driver w) of
          Inl e \<Rightarrow> (Some e, w\<lparr>failed_transaction := True\<rparr>)
        | Inr tbl \<Rightarrow> (None, w\<lparr>driver := tbl\<rparr>))"

text \<open>
  The states of a store that this class created (\<^verbatim>\<open>create_table\<close> makes the table
  empty, with its key) and that only this class writes: time passes,
  \<^verbatim>\<open>take_sleep_timestamp\<close> is called, and a new \<^verbatim>\<open>SleepDatabase\<close> object connects
  anew to the table that exists.
\<close>

inductive reachable :: "world \<Rightarrow> bool" where
  created: "reachable \<lparr>clock = t, driver = [], failed_transaction = False\<rparr>"
| tick: "reachable w \<Longrightarrow> reachable (w\<lparr>clock := t\<rparr>)"
| taken: "reachable w \<Longrightarrow> reachable (snd (take_sleep_timestamp w))"
| connected: "reachable w \<Longrightarrow> reachable (w\<lparr>failed_transaction := False\<rparr>)"

text \<open>
  A run of detections: the clock reads the next time of the list at each call of
  \<^verbatim>\<open>take_sleep_timestamp\<close>; an exception ends the run.
\<close>

fun asleep_at :: "timestamp list \<Rightarrow> world \<Rightarrow> db_error + world" where
  "asleep_at [] w = Inr w"
| "asleep_at (t # ts) w =
     (case take_sleep_timestamp (w\<lparr>clock := t\<rparr>) of
        (Some e, _) \<Rightarrow> Inl e
      | (None, w') \<Rightarrow> asleep_at ts w')"

subsection \<open>The most common sleep hour\<close>

text \<open>
  The query of \<^verbatim>\<open>most_common_sleep_hour\<close>:
  \<^verbatim>\<open>SELECT EXTRACT(HOUR FROM driver_asleep) AS sleep_hour, COUNT(*) AS frequency
  FROM driver GROUP BY sleep_hour ORDER BY frequency DESC LIMIT 1\<close>.
  Grouping gives one row for each hour that occurs, with the number of its rows.
\<close>

definition sleep_hour_frequency :: "timestamp list \<Rightarrow> (nat \<times> int) list" where
  "sleep_hour_frequency tbl =
     (let hs = map hour tbl in map (\<lambda>h. (h, int (count_list hs h))) (remdups hs))"

text \<open>
  \<^verbatim>\<open>ORDER BY frequency DESC\<close> names no second key, so the order of two groups of
  equal frequency is the engine's. A group can be the first row of the result exactly
  when no group has a greater frequency.
\<close>

definition may_come_first :: "(nat \<times> int) list \<Rightarrow> nat \<times> int \<Rightarrow> bool" where
  "may_come_first groups r = list_all (\<lambda>r'. snd r' \<le> snd r) groups"

text \<open>
  \<^verbatim>\<open>LIMIT 1\<close> and \<^verbatim>\<open>cursor.fetchone()\<close>: \<^verbatim>\<open>None\<close> when the query has no row, the
  first row otherwise. The list holds every value \<^verbatim>\<open>result\<close> can have.
\<close>

definition fetchone :: "timestamp list \<Rightarrow> (nat \<times> int) option list" where
  "fetchone tbl =
     (let groups = sleep_hour_frequency tbl in
      if groups = [] then [None] else map Some (filter (may_come_first groups) groups))"

text \<open>
  The decimal digits of a number, and the two ways the f-strings print one:
  \<^verbatim>\<open>{frequency}\<close> is \<^verbatim>\<open>str\<close> of an integer, \<^verbatim>\<open>{int(sleep_hour):02d}\<close> pads the hour
  with a zero to two digits.
\<close>

fun digits :: "nat \<Rightarrow> string" where
  "digits n =
     (if n < 10 then [''0123456789'' ! n]
      else digits (n div 10) @ [''0123456789'' ! (n mod 10)])"

declare digits.simps [simp del]

definition str :: "int \<Rightarrow> string" where
  "str i = (if i < 0 then ''-'' @ digits (nat (- i)) else digits (nat i))"

definition format_02d :: "nat \<Rightarrow> string" where
  "format_02d n = (if n < 10 then ''0'' @ digits n else digits n)"

text \<open>The window that is shown: its texts, in the order they are drawn, and its title.\<close>

record figure =
  texts :: "string list"
  title :: string

text \<open>The two branches of \<^verbatim>\<open>if result:\<close>.\<close>

fun show_result :: "(nat \<times> int) option \<Rightarrow> figure" where
  "show_result (Some (sleep_hour, frequency)) =
     \<lparr>texts = [''Most Common Sleep Hour: '' @ format_02d sleep_hour @ '':00'',
               ''Frequency: '' @ str frequency @ '' occurrences''],
      title = ''Driver Sleep Analysis''\<rparr>"
| "show_result None =
     \<lparr>texts = [''No sleep records found''],
      title = ''Driver Sleep Analysis''\<rparr>"

text \<open>Every window that \<^verbatim>\<open>most_common_sleep_hour\<close> can show on a table.\<close>

definition most_common_sleep_hour :: "timestamp list \<Rightarrow> figure list" where
  "most_common_sleep_hour tbl = map show_result (fetchone tbl)"

subsection \<open>The trend plot\<close>

text \<open>
  \<^verbatim>\<open>df['hour'].value_counts().sort_index()\<close>: one entry for each hour that occurs,
  with its number of rows, in ascending order of the hour.
\<close>

definition value_counts_sort_index :: "nat list \<Rightarrow> (nat \<times> int) list" where
  "value_counts_sort_index hs = map (\<lambda>h. (h, int (count_list hs h))) (sort (remdups hs))"

text \<open>
  \<^verbatim>\<open>Series.update\<close>: the values of \<open>other\<close> replace those at the same label;
  a label that the series does not have is ignored. The labels here are \<open>0..<length\<close>.
\<close>

definition series_update :: "int list \<Rightarrow> (nat \<times> int) list \<Rightarrow> int list" where
  "series_update s other = fold (\<lambda>(h, c) f. if h < length f then f[h := c] else f) other s"

text \<open>
  \<^verbatim>\<open>np.polyfit(x, y, 1)\<close> is the least-squares line through the points, computed by
  numpy in floating point; here it is the exact solution of the normal equations over
  the reals, as the pair (slope, intercept). \<^verbatim>\<open>np.poly1d\<close> evaluates it.
\<close>

definition polyfit1 :: "real list \<Rightarrow> real list \<Rightarrow> real \<times> real" where
  "polyfit1 xs ys =
     (let n = real (length xs);
          sx = sum_list xs;
          sy = sum_list ys;
          sxx = sum_list (map (\<lambda>x. x * x) xs);
          sxy = sum_list (map (\<lambda>(x, y). x * y) (zip xs ys));
          slope = (n * sxy - sx * sy) / (n * sxx - sx * sx);
          intercept = (sy - slope * sx) / n
      in (slope, intercept))"

fun poly1d :: "real \<times> real \<Rightarrow> real \<Rightarrow> real" where
  "poly1d (slope, intercept) x = slope * x + intercept"

text \<open>The chart: the bars, and the trend line when it is plotted.\<close>

record chart =
  bar_x :: "nat list"
  bar_y :: "int list"
  trendline :: "real list option"

datatype plot_result = Printed string | Shown chart

text \<open>
  \<^verbatim>\<open>plot_sleep_trend\<close> on the rows that \<^verbatim>\<open>SELECT driver_asleep FROM driver\<close> returns,
  with the fitting function as a parameter.
\<close>

definition plot_sleep_trend_with ::
    "(real list \<Rightarrow> real list \<Rightarrow> real \<times> real) \<Rightarrow> timestamp list \<Rightarrow> plot_result" where
  "plot_sleep_trend_with polyfit rows =
     (if rows = [] then Printed ''No sleep data to display.''
      else
        let sleep_counts = value_counts_sort_index (map hour rows);
            full_hours = series_update (replicate 24 0) sleep_counts;
            x_hours = [0..<24];
            y = full_hours
        in Shown \<lparr>bar_x = x_hours, bar_y = y,
                  trendline =
                    (if length sleep_counts \<ge> 2
                     then let z = polyfit (map real x_hours) (map real_of_int y);
                              trendline_y = map (\<lambda>x. poly1d z (real x)) x_hours
                          in Some (map (\<lambda>v. max v 0) trendline_y)
                     else None)\<rparr>)"

definition plot_sleep_trend :: "timestamp list \<Rightarrow> plot_result" where
  "plot_sleep_trend rows = plot_sleep_trend_with polyfit1 rows"

text \<open>The histogram that a result shows, if it shows one.\<close>

fun histogram :: "plot_result \<Rightarrow> int list option" where
  "histogram (Printed _) = None"
| "histogram (Shown c) = Some (bar_y c)"

fun trend :: "plot_result \<Rightarrow> real list option" where
  "trend (Printed _) = None"
| "trend (Shown c) = trendline c"

subsection \<open>Example stores\<close>

text \<open>A time of day on a day of January 2025.\<close>

definition on_day :: "nat \<Rightarrow> nat \<Rightarrow> nat \<Rightarrow> timestamp" where
  "on_day d h m =
     \<lparr>year = 2025, month = 1, day = d, hour = h, minute = m, second = 0, microsecond = 0\<rparr>"

text \<open>Five events in hour 0 and five in hour 1.\<close>

definition tied_events :: "timestamp list" where
  "tied_events =
     [on_day 1 0 5, on_day 1 1 5, on_day 2 0 5, on_day 2 1 5, on_day 3 0 5,
      on_day 3 1 5, on_day 4 0 5, on_day 4 1 5, on_day 5 0 5, on_day 5 1 5]"

text \<open>Events at 23:10, 23:45 and three times at 07:00; and the same with one more at 23:00.\<close>

definition five_events :: "timestamp list" where
  "five_events = [on_day 1 23 10, on_day 1 23 45, on_day 2 7 0, on_day 3 7 0, on_day 4 7 0]"

definition six_events :: "timestamp list" where
  "six_events = five_events @ [on_day 4 23 0]"

text \<open>One event in hour 22 and five in hour 23.\<close>

definition late_events :: "timestamp list" where
  "late_events =
     [on_day 1 22 30, on_day 1 23 30, on_day 2 23 30, on_day 3 23 30, on_day 4 23 30,
      on_day 5 23 30]"

text \<open>A store that has just been created, at midnight.\<close>

definition fresh :: world where
  "fresh = \<lparr>clock = on_day 1 0 0, driver = [], failed_transaction = False\<rparr>"

text \<open>The same store after one event, the clock still at that reading.\<close>

definition stored_once :: world where
  "stored_once =
     \<lparr>clock = on_day 1 0 0, driver = [on_day 1 0 0], failed_transaction = False\<rparr>"

section \<open>Properties\<close>

subsection \<open>Counting per hour\<close>

lemma length_series_update: "length (series_update s other) = length s"
  unfolding series_update_def
  by (induction other arbitrary: s) (auto split: prod.splits)

lemma series_update_nth:
  "distinct (map fst other) \<Longrightarrow> h < length s \<Longrightarrow>
   series_update s other ! h = (case map_of other h of None \<Rightarrow> s ! h | Some c \<Rightarrow> c)"
  unfolding series_update_def
proof (induction other arbitrary: s)
  case Nil
  then show ?case by simp
next
  case (Cons kc other)
  obtain k c where kc: "kc = (k, c)" by (cases kc)
  from Cons.prems have d: "distinct (map fst other)" and k: "k \<notin> fst ` set other"
    by (auto simp: kc)
  have none: "map_of other k = None" using k by (simp add: map_of_eq_None_iff)
  show ?case
  proof (cases "k < length s")
    case True
    with Cons.IH [OF d, of "s[k := c]"] Cons.prems(2) none show ?thesis
      by (auto simp: kc nth_list_update split: option.splits)
  next
    case False
    with Cons.IH [OF d, of s] Cons.prems(2) show ?thesis
      by (auto simp: kc split: option.splits)
  qed
qed

lemma map_of_value_counts:
  "map_of (value_counts_sort_index hs) h =
     (if h \<in> set hs then Some (int (count_list hs h)) else None)"
  unfolding value_counts_sort_index_def
  by (auto simp: map_of_map_restrict restrict_map_def)

lemma distinct_value_counts: "distinct (map fst (value_counts_sort_index hs))"
  unfolding value_counts_sort_index_def by (simp add: comp_def)

lemma length_value_counts: "length (value_counts_sort_index hs) = card (set hs)"
  unfolding value_counts_sort_index_def by (simp add: length_remdups_card_conv)

lemma full_hours_nth:
  "h < n \<Longrightarrow>
   series_update (replicate n 0) (value_counts_sort_index hs) ! h = int (count_list hs h)"
  by (simp add: series_update_nth distinct_value_counts map_of_value_counts)

lemma full_hours_eq:
  "series_update (replicate n 0) (value_counts_sort_index hs) =
     map (\<lambda>h. int (count_list hs h)) [0..<n]"
  by (rule nth_equalityI) (simp_all add: length_series_update full_hours_nth)

lemma sum_full_hours:
  assumes "\<forall>h \<in> set hs. h < n"
  shows "sum_list (map (\<lambda>h. int (count_list hs h)) [0..<n]) = int (length hs)"
proof -
  have "sum_list (map (\<lambda>h. int (count_list hs h)) [0..<n]) =
          int (sum (count_list hs) {0..<n})"
    by (simp add: interv_sum_list_conv_sum_set_nat)
  also have "sum (count_list hs) {0..<n} = length hs"
    using assms by (intro sum_count_set) auto
  finally show ?thesis .
qed

lemma value_counts_mset:
  assumes "mset hs = mset hs'"
  shows "value_counts_sort_index hs = value_counts_sort_index hs'"
proof -
  have c: "count_list hs = count_list hs'"
    using assms by (metis count_mset ext)
  have s: "set hs = set hs'" using assms by (rule mset_eq_setD)
  have "sort (remdups hs) = sort (remdups hs')"
    by (rule sorted_distinct_set_unique) (simp_all add: s)
  then show ?thesis unfolding value_counts_sort_index_def by (simp add: c)
qed

text \<open>What \<^verbatim>\<open>plot_sleep_trend\<close> shows on a store that is not empty.\<close>

lemma plot_sleep_trend_with_shown:
  assumes "rows \<noteq> []"
  shows "plot_sleep_trend_with polyfit rows =
    Shown \<lparr>bar_x = [0..<24],
           bar_y = map (\<lambda>h. int (count_list (map hour rows) h)) [0..<24],
           trendline =
             (if 2 \<le> card (hour ` set rows)
              then Some (map (\<lambda>x. max (poly1d (polyfit (map real [0..<24])
                     (map (\<lambda>h. real (count_list (map hour rows) h)) [0..<24])) (real x)) 0)
                     [0..<24])
              else None)\<rparr>"
  using assms unfolding plot_sleep_trend_with_def
  by (simp add: Let_def full_hours_eq length_value_counts comp_def)

lemma upt_24:
  "[0..<24] = [0, 1, 2, 3, 4, 5, 6, 7, 8, 9, 10, 11, 12, 13, 14, 15, 16, 17, 18, 19, 20, 21,
     22, 23]"
  by (simp add: upt_rec)

subsection \<open>The trend plot\<close>

text \<open>
  Claim C6. On an empty store \<^verbatim>\<open>plot_sleep_trend\<close> prints \<^verbatim>\<open>No sleep data to display.\<close>
  and returns: it shows no chart, neither bars nor trend line, and this is a result of
  the operation, not an exception.
\<close>

theorem plot_sleep_trend_empty:
  "plot_sleep_trend [] = Printed ''No sleep data to display.''
   \<and> histogram (plot_sleep_trend []) = None
   \<and> trend (plot_sleep_trend []) = None"
  by (simp add: plot_sleep_trend_def plot_sleep_trend_with_def)

text \<open>
  Claim C2, amended. On a store that is not empty \<^verbatim>\<open>plot_sleep_trend\<close> shows the
  bars of the counts per hour, and it plots a trend line if and only if the events fall
  in at least two distinct hours. (On the empty store it shows nothing at all.)
\<close>

theorem trendline_iff_two_hours:
  assumes "rows \<noteq> []"
  shows "histogram (plot_sleep_trend rows) =
           Some (map (\<lambda>h. int (count_list (map hour rows) h)) [0..<24])
       \<and> (trend (plot_sleep_trend rows) \<noteq> None \<longleftrightarrow> 2 \<le> card (hour ` set rows))"
  using assms by (simp add: plot_sleep_trend_def plot_sleep_trend_with_shown)

theorem trendline_iff_two_hours_witness:
  "[on_day 1 3 0, on_day 2 3 30] \<noteq> []
   \<and> card (hour ` set [on_day 1 3 0, on_day 2 3 30]) = 1
   \<and> histogram (plot_sleep_trend [on_day 1 3 0, on_day 2 3 30]) =
        Some [0, 0, 0, 2, 0, 0, 0, 0, 0, 0, 0, 0, 0, 0, 0, 0, 0, 0, 0, 0, 0, 0, 0, 0]
   \<and> trend (plot_sleep_trend [on_day 1 3 0, on_day 2 3 30]) = None
   \<and> late_events \<noteq> []
   \<and> card (hour ` set late_events) = 2
   \<and> trend (plot_sleep_trend late_events) \<noteq> None"
  using trendline_iff_two_hours [of "[on_day 1 3 0, on_day 2 3 30]"]
    trendline_iff_two_hours [of late_events]
  by (simp add: on_day_def late_events_def upt_24)

text \<open>
  The claim as written also covers the store with no event, and there no bar histogram
  is produced.
\<close>

theorem empty_store_no_bar_histogram:
  "card (hour ` set ([] :: timestamp list)) < 2 \<and> histogram (plot_sleep_trend []) = None"
  by (simp add: plot_sleep_trend_def plot_sleep_trend_with_def)

text \<open>
  Claim C3, amended. For every sequence of timestamps that is not empty, the histogram
  of \<^verbatim>\<open>plot_sleep_trend\<close> has exactly 24 entries, the entry at each hour is the number
  of timestamps of that hour, every entry is at least 0, an hour without events has
  entry 0, and the entries add up to the number of timestamps.
\<close>

theorem histogram_invariant:
  assumes "rows \<noteq> []" and "\<forall>t \<in> set rows. hour t < 24"
  shows "\<exists>y. histogram (plot_sleep_trend rows) = Some y
     \<and> length y = 24
     \<and> (\<forall>h < 24. y ! h = int (count_list (map hour rows) h))
     \<and> (\<forall>v \<in> set y. 0 \<le> v)
     \<and> (\<forall>h < 24. h \<notin> hour ` set rows \<longrightarrow> y ! h = 0)
     \<and> sum_list y = int (length rows)"
proof -
  let ?y = "map (\<lambda>h. int (count_list (map hour rows) h)) [0..<24]"
  have "histogram (plot_sleep_trend rows) = Some ?y"
    using assms(1) by (simp add: plot_sleep_trend_def plot_sleep_trend_with_shown)
  moreover have "length ?y = 24" by simp
  moreover have "\<forall>h < 24. ?y ! h = int (count_list (map hour rows) h)" by simp
  moreover have "\<forall>v \<in> set ?y. 0 \<le> v" by auto
  moreover have "\<forall>h < 24. h \<notin> hour ` set rows \<longrightarrow> ?y ! h = 0" by simp
  moreover have "sum_list ?y = int (length rows)"
    using sum_full_hours [of "map hour rows" 24] assms(2) by simp
  ultimately show ?thesis by blast
qed

theorem histogram_invariant_witness:
  "five_events \<noteq> []
   \<and> map hour five_events = [23, 23, 7, 7, 7]
   \<and> (\<exists>y. histogram (plot_sleep_trend five_events) = Some y
        \<and> length y = 24 \<and> (\<forall>v \<in> set y. 0 \<le> v) \<and> y ! 7 = 3 \<and> y ! 0 = 0
        \<and> sum_list y = 5)"
proof -
  have ne: "five_events \<noteq> []" and hs: "map hour five_events = [23, 23, 7, 7, 7]"
    by (simp_all add: five_events_def on_day_def)
  have h: "\<forall>t \<in> set five_events. hour t < 24"
    by (simp add: five_events_def on_day_def)
  from histogram_invariant [OF ne h] obtain y where
    y: "histogram (plot_sleep_trend five_events) = Some y" "length y = 24"
      "\<forall>h < 24. y ! h = int (count_list (map hour five_events) h)"
      "\<forall>v \<in> set y. 0 \<le> v" "sum_list y = int (length five_events)"
    by blast
  from y(3) have "y ! 7 = 3" "y ! 0 = 0" by (simp_all add: five_events_def on_day_def)
  moreover from y(5) have "sum_list y = 5" by (simp add: five_events_def)
  ultimately show ?thesis using ne hs y(1,2,4) by blast
qed

text \<open>On the empty sequence the aggregation is not reached: there is no histogram.\<close>

theorem empty_store_no_histogram:
  "plot_sleep_trend [] = Printed ''No sleep data to display.''
   \<and> histogram (plot_sleep_trend []) = None"
  by (simp add: plot_sleep_trend_def plot_sleep_trend_with_def)

text \<open>
  Claim C7, amended. The counting per hour does not depend on the order of the
  timestamps: for every sequence that is not empty and every permutation of it,
  \<^verbatim>\<open>plot_sleep_trend\<close> gives the same result, and both show one and the same histogram
  of 24 entries. (On the empty sequence there is no histogram.)
\<close>

theorem histogram_order_independent:
  assumes "rows \<noteq> []" and "mset rows = mset rows'"
  shows "plot_sleep_trend rows = plot_sleep_trend rows'
     \<and> (\<exists>y. histogram (plot_sleep_trend rows) = Some y
            \<and> histogram (plot_sleep_trend rows') = Some y
            \<and> length y = 24)"
proof -
  have m: "mset (map hour rows) = mset (map hour rows')"
    using assms(2) by (metis mset_map)
  have e: "rows = [] \<longleftrightarrow> rows' = []"
    using assms(2) by (metis mset_zero_iff)
  have p: "plot_sleep_trend rows = plot_sleep_trend rows'"
    unfolding plot_sleep_trend_def plot_sleep_trend_with_def
    by (simp add: value_counts_mset [OF m] e)
  have "\<exists>y. histogram (plot_sleep_trend rows) = Some y \<and> length y = 24"
    using assms(1) by (simp add: plot_sleep_trend_def plot_sleep_trend_with_shown)
  with p show ?thesis by simp
qed

theorem histogram_order_independent_witness:
  "[on_day 1 23 10, on_day 2 7 0, on_day 3 23 45] \<noteq> []
   \<and> mset [on_day 1 23 10, on_day 2 7 0, on_day 3 23 45] =
       mset [on_day 3 23 45, on_day 1 23 10, on_day 2 7 0]
   \<and> histogram (plot_sleep_trend [on_day 1 23 10, on_day 2 7 0, on_day 3 23 45]) =
       histogram (plot_sleep_trend [on_day 3 23 45, on_day 1 23 10, on_day 2 7 0])
   \<and> histogram (plot_sleep_trend [on_day 3 23 45, on_day 1 23 10, on_day 2 7 0]) =
       Some [0, 0, 0, 0, 0, 0, 0, 1, 0, 0, 0, 0, 0, 0, 0, 0, 0, 0, 0, 0, 0, 0, 0, 2]"
proof -
  have ne: "[on_day 1 23 10, on_day 2 7 0, on_day 3 23 45] \<noteq> []"
    by simp
  have m: "mset [on_day 1 23 10, on_day 2 7 0, on_day 3 23 45] =
     mset [on_day 3 23 45, on_day 1 23 10, on_day 2 7 0]"
    by simp
  have "histogram (plot_sleep_trend [on_day 3 23 45, on_day 1 23 10, on_day 2 7 0]) =
       Some [0, 0, 0, 0, 0, 0, 0, 1, 0, 0, 0, 0, 0, 0, 0, 0, 0, 0, 0, 0, 0, 0, 0, 2]"
    by (simp add: plot_sleep_trend_def plot_sleep_trend_with_shown on_day_def upt_24)
  with m histogram_order_independent [OF ne m] show ?thesis by simp
qed

text \<open>
  The empty sequence is its only permutation, and for it \<^verbatim>\<open>plot_sleep_trend\<close> yields
  no histogram, so no histogram of 24 entries.
\<close>

theorem empty_sequence_no_histogram_to_compare:
  "mset ([] :: timestamp list) = mset []
   \<and> plot_sleep_trend [] = Printed ''No sleep data to display.''
   \<and> histogram (plot_sleep_trend []) = None"
  by (simp add: plot_sleep_trend_def plot_sleep_trend_with_def)

text \<open>
  Claim C4. Whenever a trend line is plotted, it has one value for each of the 24 hours
  \<open>0..23\<close>, each the value of the fitted line at that hour raised to 0 when it is
  below; so no plotted value is below 0. This holds whatever coefficients the fit
  returns.
\<close>

theorem trendline_clamped:
  assumes "trend (plot_sleep_trend_with polyfit rows) = Some trendline_y"
  shows "\<exists>y. histogram (plot_sleep_trend_with polyfit rows) = Some y
     \<and> length trendline_y = 24
     \<and> (\<forall>x < 24. trendline_y ! x =
           max (poly1d (polyfit (map real [0..<24]) (map real_of_int y)) (real x)) 0)
     \<and> (\<forall>v \<in> set trendline_y. 0 \<le> v)"
proof -
  have ne: "rows \<noteq> []"
    using assms by (auto simp: plot_sleep_trend_with_def)
  let ?y = "map (\<lambda>h. int (count_list (map hour rows) h)) [0..<24]"
  let ?z = "polyfit (map real [0..<24]) (map real_of_int ?y)"
  have h: "histogram (plot_sleep_trend_with polyfit rows) = Some ?y"
    by (simp add: plot_sleep_trend_with_shown [OF ne])
  have t: "trendline_y = map (\<lambda>x. max (poly1d ?z (real x)) 0) [0..<24]"
    using assms by (simp add: plot_sleep_trend_with_shown [OF ne] comp_def split: if_splits)
  have "length trendline_y = 24" by (simp add: t)
  moreover have "\<forall>x < 24. trendline_y ! x = max (poly1d ?z (real x)) 0"
    by (simp add: t)
  moreover have "\<forall>v \<in> set trendline_y. 0 \<le> v" by (auto simp: t)
  ultimately show ?thesis using h by blast
qed

text \<open>
  With one event in hour 22 and five in hour 23 the least-squares line is below 0 at
  hour 0, and the plotted value there is 0.
\<close>

theorem trendline_clamped_witness:
  "trend (plot_sleep_trend_with polyfit1 late_events) =
     Some [0, 0, 0, 0, 0, 0, 0, 0, 99 / 2300, 47 / 460, 371 / 2300, 507 / 2300, 643 / 2300,
       779 / 2300, 183 / 460, 1051 / 2300, 1187 / 2300, 1323 / 2300, 1459 / 2300, 319 / 460,
       1731 / 2300, 1867 / 2300, 2003 / 2300, 93 / 100]
   \<and> histogram (plot_sleep_trend_with polyfit1 late_events) =
       Some [0, 0, 0, 0, 0, 0, 0, 0, 0, 0, 0, 0, 0, 0, 0, 0, 0, 0, 0, 0, 0, 0, 1, 5]
   \<and> poly1d (polyfit1 (map real [0..<24])
        (map real_of_int [0, 0, 0, 0, 0, 0, 0, 0, 0, 0, 0, 0, 0, 0, 0, 0, 0, 0, 0, 0, 0, 0, 1, 5]))
        (real 0) = - (43 / 100)
   \<and> list_all (\<lambda>v. 0 \<le> v) [0, 0, 0, 0, 0, 0, 0, 0, 99 / 2300, 47 / 460, 371 / 2300,
       507 / 2300, 643 / 2300, 779 / 2300, 183 / 460, 1051 / 2300, 1187 / 2300, 1323 / 2300,
       1459 / 2300, 319 / 460, 1731 / 2300, 1867 / 2300, 2003 / 2300, 93 / (100 :: real)]"
proof -
  let ?t = "[0, 0, 0, 0, 0, 0, 0, 0, 99 / 2300, 47 / 460, 371 / 2300, 507 / 2300, 643 / 2300,
       779 / 2300, 183 / 460, 1051 / 2300, 1187 / 2300, 1323 / 2300, 1459 / 2300, 319 / 460,
       1731 / 2300, 1867 / 2300, 2003 / 2300, 93 / (100 :: real)]"
  have t: "trend (plot_sleep_trend_with polyfit1 late_events) = Some ?t"
    by (simp add: plot_sleep_trend_with_shown late_events_def on_day_def upt_24 polyfit1_def)
  have h: "histogram (plot_sleep_trend_with polyfit1 late_events) =
       Some [0, 0, 0, 0, 0, 0, 0, 0, 0, 0, 0, 0, 0, 0, 0, 0, 0, 0, 0, 0, 0, 0, 1, 5]"
    by (simp add: plot_sleep_trend_with_shown late_events_def on_day_def upt_24)
  have z: "poly1d (polyfit1 (map real [0..<24])
        (map real_of_int [0, 0, 0, 0, 0, 0, 0, 0, 0, 0, 0, 0, 0, 0, 0, 0, 0, 0, 0, 0, 0, 0, 1, 5]))
        (real 0) = - (43 / 100)"
    by (simp add: upt_24 polyfit1_def)
  from trendline_clamped [OF t] have "\<forall>v \<in> set ?t. 0 \<le> v" by blast
  then have "list_all (\<lambda>v. 0 \<le> v) ?t" by (simp only: list_all_iff)
  with t h z show ?thesis by blast
qed

subsection \<open>The most common sleep hour\<close>

lemma digits_small: "n < 10 \<Longrightarrow> digits n = [''0123456789'' ! n]"
  by (subst digits.simps) simp

lemma digits_not_Nil: "digits n \<noteq> []"
  by (subst digits.simps) simp

lemma digits_eq_0: "digits n = ''0'' \<Longrightarrow> n = 0"
proof (cases "n < 10")
  case True
  assume "digits n = ''0''"
  with True have "''0123456789'' ! n = ''0123456789'' ! 0" by (simp add: digits_small)
  moreover have "distinct ''0123456789''" by simp
  ultimately show ?thesis using True nth_eq_iff_index_eq [of "''0123456789''" n 0] by simp
next
  case False
  assume a: "digits n = ''0''"
  have "length (digits n) \<ge> 2"
    using False digits_not_Nil [of "n div 10"]
    by (subst digits.simps) (cases "digits (n div 10)"; simp)
  with a show ?thesis by simp
qed

lemma set_sleep_hour_frequency:
  "set (sleep_hour_frequency tbl) = (\<lambda>h. (h, int (count_list (map hour tbl) h))) ` hour ` set tbl"
  by (auto simp: sleep_hour_frequency_def Let_def)

lemma sleep_hour_frequency_Nil: "sleep_hour_frequency tbl = [] \<longleftrightarrow> tbl = []"
  by (simp add: sleep_hour_frequency_def Let_def)

lemma may_come_first_iff:
  "may_come_first (sleep_hour_frequency tbl) (h, c) \<longleftrightarrow>
     (\<forall>h' \<in> hour ` set tbl. int (count_list (map hour tbl) h') \<le> c)"
  by (auto simp: may_come_first_def list_all_iff set_sleep_hour_frequency)

lemma count_le_everywhere:
  "(\<forall>t \<in> set tbl. count_list (map hour tbl) (hour t) \<le> n) \<longleftrightarrow>
   (\<forall>h'. count_list (map hour tbl) h' \<le> n)"
proof
  assume a: "\<forall>t \<in> set tbl. count_list (map hour tbl) (hour t) \<le> n"
  show "\<forall>h'. count_list (map hour tbl) h' \<le> n"
  proof
    fix h' show "count_list (map hour tbl) h' \<le> n"
      using a by (cases "h' \<in> hour ` set tbl") auto
  qed
qed simp

lemma set_fetchone:
  assumes "tbl \<noteq> []"
  shows "set (fetchone tbl) =
    {Some (h, int (count_list (map hour tbl) h)) | h.
       h \<in> hour ` set tbl \<and> (\<forall>h'. count_list (map hour tbl) h' \<le> count_list (map hour tbl) h)}"
proof -
  have "set (fetchone tbl) =
      Some ` {r \<in> set (sleep_hour_frequency tbl). may_come_first (sleep_hour_frequency tbl) r}"
    using assms by (simp add: fetchone_def Let_def sleep_hour_frequency_Nil)
  also have "\<dots> = {Some (h, int (count_list (map hour tbl) h)) | h.
       h \<in> hour ` set tbl \<and> (\<forall>t \<in> set tbl. count_list (map hour tbl) (hour t) \<le> count_list (map hour tbl) h)}"
    by (auto simp: set_sleep_hour_frequency may_come_first_iff)
  finally show ?thesis by (simp only: count_le_everywhere)
qed

lemma fetchone_not_Nil: "fetchone tbl \<noteq> []"
proof (cases "tbl = []")
  case True
  then show ?thesis by (simp add: fetchone_def sleep_hour_frequency_def)
next
  case False
  let ?f = "count_list (map hour tbl)"
  let ?m = "Max (?f ` hour ` set tbl)"
  have fin: "finite (?f ` hour ` set tbl)" and ne: "?f ` hour ` set tbl \<noteq> {}"
    using False by auto
  from Max_in [OF fin ne] have "\<exists>h \<in> hour ` set tbl. ?f h = ?m"
    by (simp only: image_iff) metis
  then obtain h where h: "h \<in> hour ` set tbl" "?f h = ?m" by blast
  have "\<forall>t \<in> set tbl. ?f (hour t) \<le> ?f h"
    using Max_ge [OF fin] h(2) by auto
  then have "\<forall>h'. ?f h' \<le> ?f h" using count_le_everywhere [of tbl "?f h"] by blast
  with h(1) have "Some (h, int (?f h)) \<in> set (fetchone tbl)"
    unfolding set_fetchone [OF False] by blast
  then show ?thesis by auto
qed

lemma show_result_Some_neq_None: "show_result (Some r) \<noteq> show_result None"
  by (cases r) simp

lemma fetchone_Nil: "fetchone [] = [None]"
  by (simp add: fetchone_def sleep_hour_frequency_def)

lemma fetchone_positive:
  assumes "Some (h, c) \<in> set (fetchone tbl)"
  shows "0 < c"
proof -
  have ne: "tbl \<noteq> []" using assms by (auto simp: fetchone_Nil)
  from assms obtain h' where "h' \<in> hour ` set tbl" "c = int (count_list (map hour tbl) h')"
    unfolding set_fetchone [OF ne] by blast
  then show ?thesis by (auto simp: count_list_0_iff zero_less_iff_neq_zero)
qed

lemma str_eq_0: "str c = ''0'' \<Longrightarrow> c = 0"
  using digits_eq_0 [of "nat c"] by (auto simp: str_def split: if_splits)

lemma show_zero_not_shown: "show_result (Some (h, 0)) \<notin> set (most_common_sleep_hour tbl)"
proof
  assume "show_result (Some (h, 0)) \<in> set (most_common_sleep_hour tbl)"
  then obtain r where r: "r \<in> set (fetchone tbl)" "show_result r = show_result (Some (h, 0))"
    by (auto simp: most_common_sleep_hour_def)
  show False
  proof (cases r)
    case None
    with r(2) show ?thesis by simp
  next
    case (Some p)
    obtain h' c where p: "p = (h', c)" by (cases p)
    from r(2) have "str c = str 0" by (simp add: Some p)
    moreover have "str 0 = ''0''" by (simp add: str_def digits_small)
    ultimately have "c = 0" by (simp add: str_eq_0)
    with fetchone_positive [of h' c tbl] r(1) show ?thesis by (simp add: Some p)
  qed
qed

lemma fetchone_tied_events: "fetchone tied_events = [Some (0, 5), Some (1, 5)]"
  by (simp add: fetchone_def sleep_hour_frequency_def tied_events_def on_day_def
      may_come_first_def)

lemma fetchone_five_events: "fetchone five_events = [Some (7, 3)]"
  by (simp add: fetchone_def sleep_hour_frequency_def five_events_def on_day_def
      may_come_first_def)

lemma fetchone_six_events: "fetchone six_events = [Some (7, 3), Some (23, 3)]"
  by (simp add: fetchone_def sleep_hour_frequency_def six_events_def five_events_def
      on_day_def may_come_first_def)

text \<open>
  Claim C1, amended. On a store that is not empty \<^verbatim>\<open>most_common_sleep_hour\<close> shows an
  hour whose count is the maximum, with that count. The query names no order among
  hours of equal count, so which of the tied hours is shown is the engine's choice,
  and it need not be the lowest.
\<close>

theorem most_common_sleep_hour_is_a_mode:
  assumes "tbl \<noteq> []"
  shows "most_common_sleep_hour tbl \<noteq> []
    \<and> set (most_common_sleep_hour tbl) =
        {show_result (Some (h, int (count_list (map hour tbl) h))) | h.
           h \<in> hour ` set tbl \<and>
           (\<forall>h'. count_list (map hour tbl) h' \<le> count_list (map hour tbl) h)}"
proof -
  have "most_common_sleep_hour tbl \<noteq> []"
    using fetchone_not_Nil [of tbl] by (simp add: most_common_sleep_hour_def)
  moreover have "set (most_common_sleep_hour tbl) = show_result ` set (fetchone tbl)"
    by (simp add: most_common_sleep_hour_def)
  ultimately show ?thesis unfolding set_fetchone [OF assms] by blast
qed

text \<open>
  With three events in hour 7 and three in hour 23 the windows that can be shown are
  those of hour 07 and of hour 23; with five events in hour 0 and five in hour 1 the
  window of hour 00 is one that can be shown.
\<close>

theorem most_common_sleep_hour_is_a_mode_witness:
  "six_events \<noteq> []
   \<and> most_common_sleep_hour six_events =
       [\<lparr>texts = [''Most Common Sleep Hour: 07:00'', ''Frequency: 3 occurrences''],
          title = ''Driver Sleep Analysis''\<rparr>,
        \<lparr>texts = [''Most Common Sleep Hour: 23:00'', ''Frequency: 3 occurrences''],
          title = ''Driver Sleep Analysis''\<rparr>]
   \<and> set (most_common_sleep_hour six_events) =
        {show_result (Some (h, int (count_list (map hour six_events) h))) | h.
           h \<in> hour ` set six_events \<and>
           (\<forall>h'. count_list (map hour six_events) h'
                    \<le> count_list (map hour six_events) h)}
   \<and> \<lparr>texts = [''Most Common Sleep Hour: 00:00'', ''Frequency: 5 occurrences''],
       title = ''Driver Sleep Analysis''\<rparr> \<in> set (most_common_sleep_hour tied_events)"
proof -
  have ne: "six_events \<noteq> []" by (simp add: six_events_def)
  have "most_common_sleep_hour six_events =
       [\<lparr>texts = [''Most Common Sleep Hour: 07:00'', ''Frequency: 3 occurrences''],
          title = ''Driver Sleep Analysis''\<rparr>,
        \<lparr>texts = [''Most Common Sleep Hour: 23:00'', ''Frequency: 3 occurrences''],
          title = ''Driver Sleep Analysis''\<rparr>]"
    by (simp add: most_common_sleep_hour_def fetchone_six_events format_02d_def str_def
        digits_small digits.simps [of 23])
  moreover have
    "\<lparr>texts = [''Most Common Sleep Hour: 00:00'', ''Frequency: 5 occurrences''],
       title = ''Driver Sleep Analysis''\<rparr> \<in> set (most_common_sleep_hour tied_events)"
    by (simp add: most_common_sleep_hour_def fetchone_tied_events format_02d_def str_def
        digits_small)
  ultimately show ?thesis
    using ne most_common_sleep_hour_is_a_mode [OF ne] by blast
qed

text \<open>
  Hours 7 and 23 are tied at three events each, and the window of hour 23, which is
  not the lowest of the tied hours, is one that the operation shows.
\<close>

theorem tie_shows_hour_23_not_7:
  "map hour six_events = [23, 23, 7, 7, 7, 23]
   \<and> count_list (map hour six_events) 7 = 3
   \<and> count_list (map hour six_events) 23 = 3
   \<and> \<lparr>texts = [''Most Common Sleep Hour: 23:00'', ''Frequency: 3 occurrences''],
       title = ''Driver Sleep Analysis''\<rparr> \<in> set (most_common_sleep_hour six_events)"
proof -
  have "map hour six_events = [23, 23, 7, 7, 7, 23]"
    by (simp add: six_events_def five_events_def on_day_def)
  moreover have
    "\<lparr>texts = [''Most Common Sleep Hour: 23:00'', ''Frequency: 3 occurrences''],
       title = ''Driver Sleep Analysis''\<rparr> \<in> set (most_common_sleep_hour six_events)"
    by (simp add: most_common_sleep_hour_def fetchone_six_events format_02d_def str_def
        digits_small digits.simps [of 23])
  ultimately show ?thesis by simp
qed

text \<open>
  Claim C5. With no event stored, \<^verbatim>\<open>most_common_sleep_hour\<close> takes the branch that
  shows \<^verbatim>\<open>No sleep records found\<close>. That window differs from every window for an
  hour and a count; a window for a count of 0 is never shown, on any store; every
  count shown is positive; and a store with events never gives the no-records window.
\<close>

theorem no_records_branch:
  "most_common_sleep_hour [] =
     [\<lparr>texts = [''No sleep records found''], title = ''Driver Sleep Analysis''\<rparr>]
   \<and> show_result (Some (h, c)) \<noteq> show_result None
   \<and> show_result (Some (h, 0)) \<notin> set (most_common_sleep_hour tbl)
   \<and> (tbl \<noteq> [] \<longrightarrow> show_result None \<notin> set (most_common_sleep_hour tbl))
   \<and> (Some (h, c) \<in> set (fetchone tbl) \<longrightarrow> 0 < c)"
proof -
  have "tbl \<noteq> [] \<longrightarrow> show_result None \<notin> set (most_common_sleep_hour tbl)"
  proof
    assume ne: "tbl \<noteq> []"
    have "None \<notin> set (fetchone tbl)" unfolding set_fetchone [OF ne] by blast
    then have "\<forall>r \<in> set (fetchone tbl). \<exists>p. r = Some p"
      by (metis option.exhaust)
    then show "show_result None \<notin> set (most_common_sleep_hour tbl)"
      using show_result_Some_neq_None
      by (fastforce simp: most_common_sleep_hour_def simp del: show_result.simps)
  qed
  moreover have "most_common_sleep_hour [] =
     [\<lparr>texts = [''No sleep records found''], title = ''Driver Sleep Analysis''\<rparr>]"
    by (simp add: most_common_sleep_hour_def fetchone_Nil)
  ultimately show ?thesis
    using show_zero_not_shown [of h tbl] fetchone_positive [of h c tbl]
      show_result_Some_neq_None [of "(h, c)"]
    by blast
qed

theorem no_records_branch_witness:
  "most_common_sleep_hour [] =
     [\<lparr>texts = [''No sleep records found''], title = ''Driver Sleep Analysis''\<rparr>]
   \<and> show_result (Some (0, 5)) \<noteq> show_result None
   \<and> show_result (Some (0, 0)) \<notin> set (most_common_sleep_hour tied_events)
   \<and> tied_events \<noteq> []
   \<and> show_result None \<notin> set (most_common_sleep_hour tied_events)
   \<and> Some (0, 5) \<in> set (fetchone tied_events)
   \<and> (0 :: int) < 5"
proof -
  have "tied_events \<noteq> []" by (simp add: tied_events_def)
  moreover have "Some (0, 5) \<in> set (fetchone tied_events)"
    by (simp add: fetchone_tied_events)
  ultimately show ?thesis
    using no_records_branch [of 0 5 tied_events] by blast
qed

subsection \<open>Writing to the store\<close>

lemma take_sleep_timestamp_eq:
  "take_sleep_timestamp w =
     (if failed_transaction w then (Some InFailedSqlTransaction, w)
      else if clock w \<in> set (driver w)
        then (Some UniqueViolation, w\<lparr>failed_transaction := True\<rparr>)
        else (None, w\<lparr>driver := driver w @ [clock w]\<rparr>))"
  by (simp add: take_sleep_timestamp_def insert_driver_def)

lemma asleep_at_new:
  "\<not> failed_transaction w \<Longrightarrow> t \<notin> set (driver w) \<Longrightarrow>
   asleep_at (t # ts) w =
     asleep_at ts \<lparr>clock = t, driver = driver w @ [t], failed_transaction = False\<rparr>"
  by (cases w) (simp add: take_sleep_timestamp_eq)

lemma reachable_distinct: "reachable w \<Longrightarrow> distinct (driver w)"
  by (induction rule: reachable.induct) (auto simp: take_sleep_timestamp_eq)

text \<open>
  Claim C8, amended. \<^verbatim>\<open>take_sleep_timestamp\<close> takes no timestamp from its caller: it
  reads the clock, and a call that returns has recorded exactly that reading, as one
  new row after the rows that were stored. A call raises nothing exactly when the
  transaction has not failed and the reading is not stored yet. A call that raises
  leaves the rows as they were. In no case does a call store a timestamp other than
  the clock's reading, and it does not change the clock.
\<close>

theorem take_sleep_timestamp_records_clock:
  "(fst (take_sleep_timestamp w) = None \<longleftrightarrow>
      \<not> failed_transaction w \<and> clock w \<notin> set (driver w))
   \<and> (fst (take_sleep_timestamp w) = None \<longrightarrow>
        take_sleep_timestamp w = (None, w\<lparr>driver := driver w @ [clock w]\<rparr>))
   \<and> (fst (take_sleep_timestamp w) \<noteq> None \<longrightarrow>
        driver (snd (take_sleep_timestamp w)) = driver w)
   \<and> set (driver w) \<subseteq> set (driver (snd (take_sleep_timestamp w)))
   \<and> set (driver (snd (take_sleep_timestamp w))) \<subseteq> insert (clock w) (set (driver w))
   \<and> clock (snd (take_sleep_timestamp w)) = clock w"
  by (auto simp: take_sleep_timestamp_eq)

theorem take_sleep_timestamp_records_clock_witness:
  "fst (take_sleep_timestamp fresh) = None
   \<and> take_sleep_timestamp fresh = (None, stored_once)
   \<and> driver (snd (take_sleep_timestamp fresh)) = [on_day 1 0 0]
   \<and> fst (take_sleep_timestamp stored_once) = Some UniqueViolation
   \<and> driver (snd (take_sleep_timestamp stored_once)) = [on_day 1 0 0]
   \<and> take_sleep_timestamp
        \<lparr>clock = on_day 1 0 1, driver = [on_day 1 0 0], failed_transaction = True\<rparr> =
       (Some InFailedSqlTransaction,
        \<lparr>clock = on_day 1 0 1, driver = [on_day 1 0 0], failed_transaction = True\<rparr>)"
proof -
  have "take_sleep_timestamp fresh = (None, stored_once)"
    by (simp add: take_sleep_timestamp_eq fresh_def stored_once_def)
  moreover have "fst (take_sleep_timestamp stored_once) = Some UniqueViolation"
    by (simp add: take_sleep_timestamp_eq stored_once_def)
  moreover have "take_sleep_timestamp
        \<lparr>clock = on_day 1 0 1, driver = [on_day 1 0 0], failed_transaction = True\<rparr> =
       (Some InFailedSqlTransaction,
        \<lparr>clock = on_day 1 0 1, driver = [on_day 1 0 0], failed_transaction = True\<rparr>)"
    by (simp add: take_sleep_timestamp_eq)
  moreover have "driver stored_once = [on_day 1 0 0]"
    by (simp add: stored_once_def)
  ultimately show ?thesis
    using take_sleep_timestamp_records_clock [of fresh]
      take_sleep_timestamp_records_clock [of stored_once]
    by simp
qed

text \<open>
  A caller that wants an event at 07:00 on the second day, while the clock reads 00:00
  on the first: the call stores the clock's reading, and the wanted time is not in the
  store.
\<close>

theorem take_sleep_timestamp_not_caller_time:
  "driver (snd (take_sleep_timestamp fresh)) = [on_day 1 0 0]
   \<and> on_day 2 7 0 \<notin> set (driver (snd (take_sleep_timestamp fresh)))"
  by (simp add: take_sleep_timestamp_eq fresh_def on_day_def)

text \<open>
  Claim C10. The column is the primary key: in every state of the store the stored
  timestamps are pairwise distinct, and a call of \<^verbatim>\<open>take_sleep_timestamp\<close> while the
  clock reads a stored timestamp raises and leaves the rows as they were: the key
  violation itself when the transaction had not failed before, which leaves it failed.
\<close>

theorem primary_key_distinct:
  assumes "reachable w"
  shows "distinct (driver w)
     \<and> (clock w \<in> set (driver w) \<longrightarrow>
          fst (take_sleep_timestamp w) \<noteq> None
          \<and> driver (snd (take_sleep_timestamp w)) = driver w
          \<and> clock (snd (take_sleep_timestamp w)) = clock w)
     \<and> (clock w \<in> set (driver w) \<longrightarrow> \<not> failed_transaction w \<longrightarrow>
          take_sleep_timestamp w = (Some UniqueViolation, w\<lparr>failed_transaction := True\<rparr>))
     \<and> distinct (driver (snd (take_sleep_timestamp w)))"
  using reachable_distinct [OF assms] reachable_distinct [OF taken [OF assms]]
  by (simp add: take_sleep_timestamp_eq)

theorem primary_key_distinct_witness:
  "reachable stored_once
   \<and> clock stored_once \<in> set (driver stored_once)
   \<and> take_sleep_timestamp stored_once =
       (Some UniqueViolation,
        \<lparr>clock = on_day 1 0 0, driver = [on_day 1 0 0], failed_transaction = True\<rparr>)
   \<and> driver (snd (take_sleep_timestamp stored_once)) = driver stored_once
   \<and> distinct (driver stored_once)"
proof -
  have "reachable (snd (take_sleep_timestamp fresh))"
    unfolding fresh_def by (rule taken) (rule created)
  then have r: "reachable stored_once"
    by (simp add: take_sleep_timestamp_eq fresh_def stored_once_def)
  have c: "clock stored_once \<in> set (driver stored_once)"
    by (simp add: stored_once_def)
  from primary_key_distinct [OF r] r c show ?thesis
    by (simp add: stored_once_def)
qed

subsection \<open>End to end\<close>

text \<open>
  Claim C9, amended. After events at 23:10, 23:45 and three times at 07:00 (five
  events), \<^verbatim>\<open>most_common_sleep_hour\<close> shows hour 07 with 3 occurrences and nothing
  else, and the histogram of \<^verbatim>\<open>plot_sleep_trend\<close> has 3 at hour 7, 2 at hour 23 and
  0 elsewhere, 5 in all.
\<close>

theorem five_events_end_to_end:
  "map hour five_events = [23, 23, 7, 7, 7]
   \<and> asleep_at five_events fresh = Inr \<lparr>clock = on_day 4 7 0, driver = five_events, failed_transaction = False\<rparr>
   \<and> fetchone five_events = [Some (7, 3)]
   \<and> most_common_sleep_hour five_events =
       [\<lparr>texts = [''Most Common Sleep Hour: 07:00'', ''Frequency: 3 occurrences''],
          title = ''Driver Sleep Analysis''\<rparr>]
   \<and> histogram (plot_sleep_trend five_events) =
       Some [0, 0, 0, 0, 0, 0, 0, 3, 0, 0, 0, 0, 0, 0, 0, 0, 0, 0, 0, 0, 0, 0, 0, 2]
   \<and> sum_list [0, 0, 0, 0, 0, 0, 0, 3, 0, 0, 0, 0, 0, 0, 0, 0, 0, 0, 0, 0, 0, 0, 0, 2 :: int] = 5"
proof -
  have "map hour five_events = [23, 23, 7, 7, 7]"
    by (simp add: five_events_def on_day_def)
  moreover have
    "asleep_at five_events fresh = Inr \<lparr>clock = on_day 4 7 0, driver = five_events, failed_transaction = False\<rparr>"
    by (simp add: five_events_def fresh_def asleep_at_new on_day_def del: asleep_at.simps(2))
  moreover have "most_common_sleep_hour five_events =
       [\<lparr>texts = [''Most Common Sleep Hour: 07:00'', ''Frequency: 3 occurrences''],
          title = ''Driver Sleep Analysis''\<rparr>]"
    by (simp add: most_common_sleep_hour_def fetchone_five_events format_02d_def str_def
        digits_small)
  moreover have "histogram (plot_sleep_trend five_events) =
       Some [0, 0, 0, 0, 0, 0, 0, 3, 0, 0, 0, 0, 0, 0, 0, 0, 0, 0, 0, 0, 0, 0, 0, 2]"
    by (simp add: plot_sleep_trend_def plot_sleep_trend_with_shown five_events_def
        on_day_def upt_24)
  ultimately show ?thesis by (simp add: fetchone_five_events)
qed

text \<open>
  The events as the claim lists them, with the one at 23:00, are six: hour 23 then has
  3, the total is 6, and hour 23 with 3 occurrences is a window the mode operation can
  show.
\<close>

theorem six_events_end_to_end:
  "map hour six_events = [23, 23, 7, 7, 7, 23]
   \<and> asleep_at six_events fresh = Inr \<lparr>clock = on_day 4 23 0, driver = six_events, failed_transaction = False\<rparr>
   \<and> histogram (plot_sleep_trend six_events) =
       Some [0, 0, 0, 0, 0, 0, 0, 3, 0, 0, 0, 0, 0, 0, 0, 0, 0, 0, 0, 0, 0, 0, 0, 3]
   \<and> sum_list [0, 0, 0, 0, 0, 0, 0, 3, 0, 0, 0, 0, 0, 0, 0, 0, 0, 0, 0, 0, 0, 0, 0, 3 :: int] = 6
   \<and> \<lparr>texts = [''Most Common Sleep Hour: 23:00'', ''Frequency: 3 occurrences''],
       title = ''Driver Sleep Analysis''\<rparr> \<in> set (most_common_sleep_hour six_events)"
proof -
  have "map hour six_events = [23, 23, 7, 7, 7, 23]"
    by (simp add: six_events_def five_events_def on_day_def)
  moreover have
    "asleep_at six_events fresh = Inr \<lparr>clock = on_day 4 23 0, driver = six_events, failed_transaction = False\<rparr>"
    by (simp add: six_events_def five_events_def fresh_def asleep_at_new on_day_def
        del: asleep_at.simps(2))
  moreover have "histogram (plot_sleep_trend six_events) =
       Some [0, 0, 0, 0, 0, 0, 0, 3, 0, 0, 0, 0, 0, 0, 0, 0, 0, 0, 0, 0, 0, 0, 0, 3]"
    by (simp add: plot_sleep_trend_def plot_sleep_trend_with_shown six_events_def
        five_events_def on_day_def upt_24)
  moreover have "\<lparr>texts = [''Most Common Sleep Hour: 23:00'', ''Frequency: 3 occurrences''],
       title = ''Driver Sleep Analysis''\<rparr> \<in> set (most_common_sleep_hour six_events)"
    by (simp add: most_common_sleep_hour_def fetchone_six_events format_02d_def str_def
        digits_small digits.simps [of 23])
  ultimately show ?thesis by simp
qed

end
